theory Spec2Isabelle
  imports Main
begin

section \<open>Values of the Python runtime\<close>

text \<open>
  The logger of \<^verbatim>\<open>logger.py\<close> formats a line, stamps it with the local time and hands
  it to one of three backends, which print it, append it to \<^verbatim>\<open>app.log\<close> or add it to
  the JSON array kept in \<^verbatim>\<open>logs.json\<close>. Everything the program does beyond computing
  strings is an effect on its environment, so the model passes a \<open>world\<close> through every
  call: the clock, the standard output, the files and a history of what was done.
  A Python \<^verbatim>\<open>str\<close> is a \<open>string\<close>; each character stands for the code point of the
  same number.
\<close>

datatype exn =
    FileNotFoundError string
  | JSONDecodeError
  | AttributeError string
  | ValueError string

datatype 'a result = Return 'a | Raise exn

subsection \<open>Dates and their two renderings\<close>

text \<open>
  \<^verbatim>\<open>datetime.now()\<close> yields a naive local \<^verbatim>\<open>datetime\<close>. Python keeps its fields within
  the ranges of \<open>valid_datetime\<close> (the day is further bounded by the month, which
  nothing below needs).
\<close>

record datetime =
  year :: nat
  month :: nat
  day :: nat
  hour :: nat
  minute :: nat
  second :: nat
  microsecond :: nat

definition valid_datetime :: "datetime \<Rightarrow> bool" where
  "valid_datetime t \<longleftrightarrow>
     1 \<le> year t \<and> year t \<le> 9999 \<and> 1 \<le> month t \<and> month t \<le> 12 \<and>
     1 \<le> day t \<and> day t \<le> 31 \<and> hour t < 24 \<and> minute t < 60 \<and> second t < 60 \<and>
     microsecond t < 1000000"

definition digit_char :: "nat \<Rightarrow> char" where
  "digit_char n = ''0123456789'' ! (n mod 10)"

fun dec :: "nat \<Rightarrow> string" where
  "dec n = (if n < 10 then [digit_char n] else dec (n div 10) @ [digit_char n])"

definition zfill :: "nat \<Rightarrow> string \<Rightarrow> string" where
  "zfill width s = replicate (width - length s) CHR ''0'' @ s"

text \<open>
  The directives of \<^verbatim>\<open>strftime\<close> that the program uses, as the Python documentation
  gives them: \<^verbatim>\<open>%Y\<close> is the year in four digits, the others are two digits, all
  padded with zeros. A directive the program does not use is left as it stands.
\<close>

definition directive :: "char \<Rightarrow> datetime \<Rightarrow> string" where
  "directive d t =
     (if d = CHR ''Y'' then zfill 4 (dec (year t))
      else if d = CHR ''m'' then zfill 2 (dec (month t))
      else if d = CHR ''d'' then zfill 2 (dec (day t))
      else if d = CHR ''H'' then zfill 2 (dec (hour t))
      else if d = CHR ''M'' then zfill 2 (dec (minute t))
      else if d = CHR ''S'' then zfill 2 (dec (second t))
      else if d = CHR ''%'' then ''%''
      else [CHR ''%'', d])"

fun strftime :: "datetime \<Rightarrow> string \<Rightarrow> string" where
  "strftime t [] = []"
| "strftime t [c] = [c]"
| "strftime t (c # d # fmt) =
     (if c = CHR ''%'' then directive d t @ strftime t fmt else c # strftime t (d # fmt))"

text \<open>
  \<^verbatim>\<open>isoformat()\<close> of a naive datetime: the date, the letter T, the time, and the
  microseconds in six digits unless they are zero.
\<close>

definition isoformat :: "datetime \<Rightarrow> string" where
  "isoformat t =
     zfill 4 (dec (year t)) @ ''-'' @ zfill 2 (dec (month t)) @ ''-'' @ zfill 2 (dec (day t))
     @ ''T'' @ zfill 2 (dec (hour t)) @ '':'' @ zfill 2 (dec (minute t)) @ '':''
     @ zfill 2 (dec (second t))
     @ (if microsecond t = 0 then [] else ''.'' @ zfill 6 (dec (microsecond t)))"

text \<open>
  The pattern of the specification, \<^verbatim>\<open>\d{4}-\d{2}-\d{2} \d{2}:\d{2}:\d{2}\<close>, as a list of
  items that each match one character.
\<close>

datatype item = Digit | Lit char

definition is_digit :: "char \<Rightarrow> bool" where
  "is_digit c \<longleftrightarrow> c \<in> set ''0123456789''"

fun matches :: "item list \<Rightarrow> string \<Rightarrow> bool" where
  "matches [] [] = True"
| "matches (Digit # ps) (c # cs) = (is_digit c \<and> matches ps cs)"
| "matches (Lit x # ps) (c # cs) = (c = x \<and> matches ps cs)"
| "matches _ _ = False"

definition timestamp_pattern :: "item list" where
  "timestamp_pattern =
     [Digit, Digit, Digit, Digit, Lit CHR ''-'', Digit, Digit, Lit CHR ''-'', Digit, Digit,
      Lit CHR '' '', Digit, Digit, Lit CHR '':'', Digit, Digit, Lit CHR '':'', Digit, Digit]"

section \<open>The environment\<close>

text \<open>
  A backend object has no fields; it is its class and its identity. The identity is the
  number of backends constructed before it.
\<close>

datatype cls = ConsoleLogger | FileLogger | JSONLogger

record backend =
  ident :: nat
  cls :: cls

datatype mode = ReadMode | AppendMode | WriteMode

text \<open>
  What the program does to its environment, in the order it does it: a clock reading, a
  call of a backend's \<^verbatim>\<open>write\<close>, a line on the standard output, and the opening,
  reading, writing and closing of a file.
\<close>

datatype event =
    ClockRead datetime
  | Called backend string
  | Printed string
  | Opened string mode
  | ReadAll string
  | Written string string
  | Closed string

text \<open>
  \<open>clock w k\<close> is what the system clock answers to the \<open>k\<close>-th reading and \<open>ticks\<close>
  counts the readings made; \<open>files\<close> maps a path to the text of the file there;
  \<open>made\<close> counts the backends constructed. Opening, reading and writing succeed whenever
  the file system allows them at all: a full disk or a missing permission is not part of
  this model.
\<close>

record world =
  clock :: "nat \<Rightarrow> datetime"
  ticks :: nat
  stdout :: string
  files :: "string \<rightharpoonup> string"
  made :: nat
  events :: "event list"

definition emit :: "event \<Rightarrow> world \<Rightarrow> world" where
  "emit e w = w\<lparr>events := events w @ [e]\<rparr>"

definition datetime_now :: "world \<Rightarrow> datetime \<times> world" where
  "datetime_now w =
     (clock w (ticks w), emit (ClockRead (clock w (ticks w))) (w\<lparr>ticks := Suc (ticks w)\<rparr>))"

definition newline :: string where
  "newline = [CHR 0x0A]"

definition print_line :: "string \<Rightarrow> world \<Rightarrow> world" where
  "print_line s w = emit (Printed (s @ newline)) (w\<lparr>stdout := stdout w @ s @ newline\<rparr>)"

definition text_at :: "world \<Rightarrow> string \<Rightarrow> string" where
  "text_at w path = (case files w path of None \<Rightarrow> [] | Some old \<Rightarrow> old)"

text \<open>
  \<^verbatim>\<open>open(path, "r")\<close> needs the file; \<^verbatim>\<open>"a"\<close> creates it when it is absent and keeps its
  text otherwise; \<^verbatim>\<open>"w"\<close> creates it or empties it.
\<close>

definition open_file :: "string \<Rightarrow> mode \<Rightarrow> world \<Rightarrow> unit result \<times> world" where
  "open_file path m w =
     (case m of
        ReadMode \<Rightarrow>
          (case files w path of
             None \<Rightarrow> (Raise (FileNotFoundError path), w)
           | Some old \<Rightarrow> (Return (), emit (Opened path m) w))
      | AppendMode \<Rightarrow>
          (Return (), emit (Opened path m) (w\<lparr>files := (files w)(path \<mapsto> text_at w path)\<rparr>))
      | WriteMode \<Rightarrow>
          (Return (), emit (Opened path m) (w\<lparr>files := (files w)(path \<mapsto> [])\<rparr>)))"

definition file_write :: "string \<Rightarrow> string \<Rightarrow> world \<Rightarrow> world" where
  "file_write path s w =
     emit (Written path s) (w\<lparr>files := (files w)(path \<mapsto> text_at w path @ s)\<rparr>)"

definition file_read :: "string \<Rightarrow> world \<Rightarrow> string \<times> world" where
  "file_read path w = (text_at w path, emit (ReadAll path) w)"

definition file_close :: "string \<Rightarrow> world \<Rightarrow> world" where
  "file_close path w = emit (Closed path) w"

section \<open>JSON texts\<close>

text \<open>
  What \<^verbatim>\<open>json.load\<close> yields and \<^verbatim>\<open>json.dump\<close> takes. A string of a JSON value is a
  list of code points, since an escape \<^verbatim>\<open>\uXXXX\<close> can name any of them. A number
  with a fraction or an exponent is a Python float: the model keeps its text and writes
  that text back, where Python writes the shortest text of the float. No statement of
  this theory is about a file that holds such a number.
\<close>

datatype json =
    JNull
  | JBool bool
  | JInt int
  | JFloat string
  | JString "nat list"
  | JArray "json list"
  | JObject "(nat list \<times> json) list"

definition ustr :: "string \<Rightarrow> nat list" where
  "ustr s = map of_char s"

definition quote :: char where
  "quote = CHR 0x22"

definition backslash :: char where
  "backslash = CHR 0x5C"

definition hex_char :: "nat \<Rightarrow> char" where
  "hex_char n = ''0123456789abcdef'' ! (n mod 16)"

definition hex4 :: "nat \<Rightarrow> string" where
  "hex4 n = [hex_char (n div 4096), hex_char (n div 256), hex_char (n div 16), hex_char n]"

definition escape :: "nat \<Rightarrow> string" where
  "escape c =
     (if c = 0x22 then [backslash, quote]
      else if c = 0x5C then [backslash, backslash]
      else if c = 0x0A then [backslash, CHR ''n'']
      else if c = 0x0D then [backslash, CHR ''r'']
      else if c = 0x09 then [backslash, CHR ''t'']
      else if c = 0x08 then [backslash, CHR ''b'']
      else if c = 0x0C then [backslash, CHR ''f'']
      else if 0x20 \<le> c \<and> c \<le> 0x7E then [char_of c]
      else if c < 0x10000 then backslash # CHR ''u'' # hex4 c
      else backslash # CHR ''u'' # hex4 (0xD800 + (c - 0x10000) div 0x400 mod 0x400)
           @ backslash # CHR ''u'' # hex4 (0xDC00 + (c - 0x10000) mod 0x400))"

definition encode_string :: "nat list \<Rightarrow> string" where
  "encode_string s = quote # concat (map escape s) @ [quote]"

definition show_int :: "int \<Rightarrow> string" where
  "show_int i = (if i < 0 then CHR ''-'' # dec (nat (- i)) else dec (nat i))"

definition newline_indent :: "nat \<Rightarrow> string" where
  "newline_indent lvl = CHR 0x0A # replicate (2 * lvl) CHR '' ''"

fun encode :: "nat \<Rightarrow> json \<Rightarrow> string"
  and encode_items :: "nat \<Rightarrow> json list \<Rightarrow> string"
  and encode_members :: "nat \<Rightarrow> (nat list \<times> json) list \<Rightarrow> string"
where
  "encode lvl JNull = ''null''"
| "encode lvl (JBool b) = (if b then ''true'' else ''false'')"
| "encode lvl (JInt i) = show_int i"
| "encode lvl (JFloat s) = s"
| "encode lvl (JString s) = encode_string s"
| "encode lvl (JArray []) = ''[]''"
| "encode lvl (JArray (x # xs)) =
     ''['' @ newline_indent (Suc lvl) @ encode (Suc lvl) x @ encode_items (Suc lvl) xs
     @ newline_indent lvl @ '']''"
| "encode lvl (JObject []) = ''{}''"
| "encode lvl (JObject ((k, v) # kvs)) =
     ''{'' @ newline_indent (Suc lvl) @ encode_string k @ '': '' @ encode (Suc lvl) v
     @ encode_members (Suc lvl) kvs @ newline_indent lvl @ ''}''"
| "encode_items lvl [] = []"
| "encode_items lvl (x # xs) = '','' @ newline_indent lvl @ encode lvl x @ encode_items lvl xs"
| "encode_members lvl [] = []"
| "encode_members lvl ((k, v) # kvs) =
     '','' @ newline_indent lvl @ encode_string k @ '': '' @ encode lvl v
     @ encode_members lvl kvs"

definition is_ws :: "char \<Rightarrow> bool" where
  "is_ws c \<longleftrightarrow> c = CHR '' '' \<or> c = CHR 0x09 \<or> c = CHR 0x0A \<or> c = CHR 0x0D"

definition skip_ws :: "string \<Rightarrow> string" where
  "skip_ws s = dropWhile is_ws s"

definition strip :: "string \<Rightarrow> string \<Rightarrow> string option" where
  "strip p s = (if take (length p) s = p then Some (drop (length p) s) else None)"

definition hex_val :: "char \<Rightarrow> nat option" where
  "hex_val c =
     (let n = of_char c in
      if 48 \<le> n \<and> n \<le> 57 then Some (n - 48)
      else if 97 \<le> n \<and> n \<le> 102 then Some (n - 87)
      else if 65 \<le> n \<and> n \<le> 70 then Some (n - 55)
      else None)"

definition hex4_val :: "char \<Rightarrow> char \<Rightarrow> char \<Rightarrow> char \<Rightarrow> nat option" where
  "hex4_val a b c d =
     (case (hex_val a, hex_val b, hex_val c, hex_val d) of
        (Some x, Some y, Some z, Some u) \<Rightarrow> Some (((x * 16 + y) * 16 + z) * 16 + u)
      | _ \<Rightarrow> None)"

definition unescape :: "char \<Rightarrow> nat option" where
  "unescape e =
     (if e = quote then Some 0x22
      else if e = backslash then Some 0x5C
      else if e = CHR ''/'' then Some 0x2F
      else if e = CHR ''b'' then Some 0x08
      else if e = CHR ''f'' then Some 0x0C
      else if e = CHR ''n'' then Some 0x0A
      else if e = CHR ''r'' then Some 0x0D
      else if e = CHR ''t'' then Some 0x09
      else None)"

definition cons_char :: "nat \<Rightarrow> (nat list \<times> string) option \<Rightarrow> (nat list \<times> string) option" where
  "cons_char c r = (case r of None \<Rightarrow> None | Some (s, rest) \<Rightarrow> Some (c # s, rest))"

fun scanstring :: "string \<Rightarrow> (nat list \<times> string) option" where
  "scanstring [] = None"
| "scanstring (c # cs) =
     (if c = quote then Some ([], cs)
      else if c = backslash then
        (case cs of
           [] \<Rightarrow> None
         | e # es \<Rightarrow>
             if e = CHR ''u'' then
               (case es of
                  a # b # c' # d # r \<Rightarrow>
                    (case hex4_val a b c' d of
                       None \<Rightarrow> None
                     | Some u \<Rightarrow>
                         if 0xD800 \<le> u \<and> u \<le> 0xDBFF then
                           (case r of
                              b1 # u1 # a2 # b2 # c2 # d2 # r2 \<Rightarrow>
                                if b1 = backslash \<and> u1 = CHR ''u'' then
                                  (case hex4_val a2 b2 c2 d2 of
                                     None \<Rightarrow> None
                                   | Some u2 \<Rightarrow>
                                       if 0xDC00 \<le> u2 \<and> u2 \<le> 0xDFFF then
                                         cons_char (0x10000 + (u - 0xD800) * 0x400 + (u2 - 0xDC00))
                                           (scanstring r2)
                                       else cons_char u (scanstring r))
                                else cons_char u (scanstring r)
                            | _ \<Rightarrow> cons_char u (scanstring r))
                         else cons_char u (scanstring r))
                | _ \<Rightarrow> None)
             else
               (case unescape e of
                  None \<Rightarrow> None
                | Some x \<Rightarrow> cons_char x (scanstring es)))
      else if of_char c < (0x20 :: nat) then None
      else cons_char (of_char c) (scanstring cs))"


definition dict_set :: "(nat list \<times> json) list \<Rightarrow> nat list \<Rightarrow> json \<Rightarrow> (nat list \<times> json) list" where
  "dict_set d k v =
     (if k \<in> fst ` set d then map (\<lambda>(k', v'). if k' = k then (k', v) else (k', v')) d
      else d @ [(k, v)])"

definition dict_of :: "(nat list \<times> json) list \<Rightarrow> (nat list \<times> json) list" where
  "dict_of pairs = foldl (\<lambda>d (k, v). dict_set d k v) [] pairs"

definition digits_val :: "string \<Rightarrow> nat" where
  "digits_val ds = foldl (\<lambda>n c. 10 * n + (of_char c - 48)) 0 ds"

definition exponent :: "string \<Rightarrow> string" where
  "exponent s =
     (case s of
        [] \<Rightarrow> []
      | e # r \<Rightarrow>
          if e = CHR ''e'' \<or> e = CHR ''E'' then
            (let sgn = (case r of
                          [] \<Rightarrow> []
                        | x # r' \<Rightarrow> if x = CHR ''+'' \<or> x = CHR ''-'' then [x] else []);
                 ds = takeWhile is_digit (drop (length sgn) r)
             in if ds = [] then [] else e # sgn @ ds)
          else [])"

definition fraction :: "string \<Rightarrow> string" where
  "fraction s =
     (case s of
        p # q # r \<Rightarrow> if p = CHR ''.'' \<and> is_digit q then p # q # takeWhile is_digit r else []
      | _ \<Rightarrow> [])"

definition match_number :: "string \<Rightarrow> (json \<times> string) option" where
  "match_number s =
     (let sgn = (case s of [] \<Rightarrow> [] | c # r \<Rightarrow> if c = CHR ''-'' then [c] else []);
          r0 = drop (length sgn) s
      in case r0 of
           [] \<Rightarrow> None
         | d # r1 \<Rightarrow>
             if \<not> is_digit d then None
             else
               (let ip = (if d = CHR ''0'' then [d] else d # takeWhile is_digit r1);
                    r2 = drop (length ip) r0;
                    fr = fraction r2;
                    r3 = drop (length fr) r2;
                    ex = exponent r3;
                    r4 = drop (length ex) r3
                in if fr = [] \<and> ex = []
                   then Some (JInt (if sgn = [] then int (digits_val ip)
                                    else - int (digits_val ip)), r4)
                   else Some (JFloat (sgn @ ip @ fr @ ex), r4)))"

definition literal :: "string \<Rightarrow> json \<Rightarrow> string \<Rightarrow> (json \<times> string) option" where
  "literal p v s = (case strip p s of None \<Rightarrow> None | Some r \<Rightarrow> Some (v, r))"

fun parse_value :: "nat \<Rightarrow> string \<Rightarrow> (json \<times> string) option"
  and parse_elems :: "nat \<Rightarrow> string \<Rightarrow> (json list \<times> string) option"
  and parse_members :: "nat \<Rightarrow> string \<Rightarrow> ((nat list \<times> json) list \<times> string) option"
where
  "parse_value 0 s = None"
| "parse_value (Suc n) [] = None"
| "parse_value (Suc n) (c # r) =
     (if c = quote then
        (case scanstring r of None \<Rightarrow> None | Some (x, r') \<Rightarrow> Some (JString x, r'))
      else if c = CHR ''{'' then
        (case strip ''}'' (skip_ws r) of
           Some r' \<Rightarrow> Some (JObject [], r')
         | None \<Rightarrow>
             (case parse_members n (skip_ws r) of
                None \<Rightarrow> None
              | Some (kvs, r') \<Rightarrow> Some (JObject (dict_of kvs), r')))
      else if c = CHR ''['' then
        (case strip '']'' (skip_ws r) of
           Some r' \<Rightarrow> Some (JArray [], r')
         | None \<Rightarrow>
             (case parse_elems n (skip_ws r) of
                None \<Rightarrow> None
              | Some (vs, r') \<Rightarrow> Some (JArray vs, r')))
      else if c = CHR ''n'' then literal ''ull'' JNull r
      else if c = CHR ''t'' then literal ''rue'' (JBool True) r
      else if c = CHR ''f'' then literal ''alse'' (JBool False) r
      else if c = CHR ''N'' then literal ''aN'' (JFloat ''NaN'') r
      else if c = CHR ''I'' then literal ''nfinity'' (JFloat ''Infinity'') r
      else if c = CHR ''-'' \<and> strip ''Infinity'' r \<noteq> None then
        literal ''Infinity'' (JFloat ''-Infinity'') r
      else match_number (c # r))"
| "parse_elems 0 s = None"
| "parse_elems (Suc n) s =
     (case parse_value n s of
        None \<Rightarrow> None
      | Some (v, r) \<Rightarrow>
          (case skip_ws r of
             [] \<Rightarrow> None
           | d # r1 \<Rightarrow>
               if d = CHR '']'' then Some ([v], r1)
               else if d = CHR '','' then
                 (case parse_elems n (skip_ws r1) of
                    None \<Rightarrow> None
                  | Some (vs, r2) \<Rightarrow> Some (v # vs, r2))
               else None))"
| "parse_members 0 s = None"
| "parse_members (Suc n) s =
     (case s of
        [] \<Rightarrow> None
      | q # r \<Rightarrow>
          if q \<noteq> quote then None
          else
            (case scanstring r of
               None \<Rightarrow> None
             | Some (k, r1) \<Rightarrow>
                 (case skip_ws r1 of
                    [] \<Rightarrow> None
                  | col # r2 \<Rightarrow>
                      if col \<noteq> CHR '':'' then None
                      else
                        (case parse_value n (skip_ws r2) of
                           None \<Rightarrow> None
                         | Some (v, r3) \<Rightarrow>
                             (case skip_ws r3 of
                                [] \<Rightarrow> None
                              | d # r4 \<Rightarrow>
                                  if d = CHR ''}'' then Some ([(k, v)], r4)
                                  else if d = CHR '','' then
                                    (case parse_members n (skip_ws r4) of
                                       None \<Rightarrow> None
                                     | Some (kvs, r5) \<Rightarrow> Some ((k, v) # kvs, r5))
                                  else None)))))"

definition json_loads :: "string \<Rightarrow> json option" where
  "json_loads s =
     (case parse_value (Suc (2 * length s)) (skip_ws s) of
        None \<Rightarrow> None
      | Some (v, r) \<Rightarrow> if skip_ws r = [] then Some v else None)"
section \<open>The backends that write text\<close>

definition ConsoleLogger_write :: "string \<Rightarrow> world \<Rightarrow> unit result \<times> world" where
  "ConsoleLogger_write message w = (Return (), print_line message w)"

definition FileLogger_write :: "string \<Rightarrow> world \<Rightarrow> unit result \<times> world" where
  "FileLogger_write message w =
     (case open_file ''app.log'' AppendMode w of
        (Raise e, w1) \<Rightarrow> (Raise e, w1)
      | (Return u, w1) \<Rightarrow>
          (Return (), file_close ''app.log'' (file_write ''app.log'' (message @ newline) w1)))"

section \<open>The backend that keeps a JSON array\<close>

text \<open>
  \<^verbatim>\<open>json.load(file)\<close> reads the whole file and decodes it; \<^verbatim>\<open>json.dump(logs, file,
  indent=2)\<close> hands the encoded text to the file, which the history records as one write.
\<close>

definition json_load :: "string \<Rightarrow> world \<Rightarrow> json result \<times> world" where
  "json_load path w =
     (case file_read path w of
        (s, w1) \<Rightarrow>
          (case json_loads s of
             None \<Rightarrow> (Raise JSONDecodeError, w1)
           | Some v \<Rightarrow> (Return v, w1)))"

definition json_dump :: "json \<Rightarrow> string \<Rightarrow> world \<Rightarrow> world" where
  "json_dump obj path w = file_write path (encode 0 obj) w"

text \<open>
  The body of the \<^verbatim>\<open>try\<close>: the \<^verbatim>\<open>with\<close> block closes the file whether or not
  \<^verbatim>\<open>json.load\<close> raises.
\<close>

definition load_logs :: "world \<Rightarrow> json result \<times> world" where
  "load_logs w =
     (case open_file ''logs.json'' ReadMode w of
        (Raise e, w1) \<Rightarrow> (Raise e, w1)
      | (Return u, w1) \<Rightarrow>
          (case json_load ''logs.json'' w1 of
             (r, w2) \<Rightarrow> (r, file_close ''logs.json'' w2)))"

text \<open>The \<^verbatim>\<open>try\<close> with its handler: only \<^verbatim>\<open>FileNotFoundError\<close> is caught.\<close>

definition load_or_empty :: "world \<Rightarrow> json result \<times> world" where
  "load_or_empty w =
     (case load_logs w of
        (Raise (FileNotFoundError p), w1) \<Rightarrow> (Return (JArray []), w1)
      | (Raise e, w1) \<Rightarrow> (Raise e, w1)
      | (Return logs, w1) \<Rightarrow> (Return logs, w1))"

text \<open>\<^verbatim>\<open>logs.append(log_entry)\<close>: only a list has the method.\<close>

definition list_append :: "json \<Rightarrow> json \<Rightarrow> json result" where
  "list_append logs x =
     (case logs of
        JArray xs \<Rightarrow> Return (JArray (xs @ [x]))
      | _ \<Rightarrow> Raise (AttributeError ''append''))"

definition JSONLogger_write :: "string \<Rightarrow> world \<Rightarrow> unit result \<times> world" where
  "JSONLogger_write message w =
     (case datetime_now w of
        (now, w1) \<Rightarrow>
          (let log_entry = JObject [(ustr ''timestamp'', JString (ustr (isoformat now))),
                                    (ustr ''message'', JString (ustr message))]
           in case load_or_empty w1 of
                (Raise e, w2) \<Rightarrow> (Raise e, w2)
              | (Return logs, w2) \<Rightarrow>
                  (case list_append logs log_entry of
                     Raise e \<Rightarrow> (Raise e, w2)
                   | Return logs' \<Rightarrow>
                       (case open_file ''logs.json'' WriteMode w2 of
                          (Raise e, w3) \<Rightarrow> (Raise e, w3)
                        | (Return u, w3) \<Rightarrow>
                            (Return (),
                             file_close ''logs.json'' (json_dump logs' ''logs.json'' w3))))))"

section \<open>The factory\<close>

text \<open>
  The three classes define no constructor, so constructing a backend does nothing but
  make the object.
\<close>

definition construct :: "cls \<Rightarrow> world \<Rightarrow> backend \<times> world" where
  "construct c w = (\<lparr>ident = made w, cls = c\<rparr>, w\<lparr>made := Suc (made w)\<rparr>)"

definition create_logger :: "string \<Rightarrow> world \<Rightarrow> backend result \<times> world" where
  "create_logger log_type w =
     (if log_type = ''console'' then
        (case construct ConsoleLogger w of (b, w1) \<Rightarrow> (Return b, w1))
      else if log_type = ''file'' then
        (case construct FileLogger w of (b, w1) \<Rightarrow> (Return b, w1))
      else if log_type = ''json'' then
        (case construct JSONLogger w of (b, w1) \<Rightarrow> (Return b, w1))
      else (Raise (ValueError (''Unknown logger type: '' @ log_type)), w))"

section \<open>The logger\<close>

record logger =
  strategy :: backend

text \<open>\<^verbatim>\<open>self.strategy.write(text)\<close>: the class of the object chooses the method.\<close>

definition backend_write :: "backend \<Rightarrow> string \<Rightarrow> world \<Rightarrow> unit result \<times> world" where
  "backend_write b message w =
     (case cls b of
        ConsoleLogger \<Rightarrow> ConsoleLogger_write message (emit (Called b message) w)
      | FileLogger \<Rightarrow> FileLogger_write message (emit (Called b message) w)
      | JSONLogger \<Rightarrow> JSONLogger_write message (emit (Called b message) w))"

definition Logger_init :: "backend \<Rightarrow> logger" where
  "Logger_init strategy' = \<lparr>strategy = strategy'\<rparr>"

definition Logger_change_output :: "logger \<Rightarrow> backend \<Rightarrow> logger" where
  "Logger_change_output self new_strategy = self\<lparr>strategy := new_strategy\<rparr>"

definition Logger_log :: "logger \<Rightarrow> string \<Rightarrow> string \<Rightarrow> world \<Rightarrow> unit result \<times> world" where
  "Logger_log self level message w =
     (case datetime_now w of
        (now, w1) \<Rightarrow>
          (let timestamp = strftime now ''%Y-%m-%d %H:%M:%S'';
               formatted_message = ''['' @ timestamp @ ''] '' @ level @ '': '' @ message
           in backend_write (strategy self) formatted_message w1))"

definition Logger_info :: "logger \<Rightarrow> string \<Rightarrow> world \<Rightarrow> unit result \<times> world" where
  "Logger_info self message w = Logger_log self ''INFO'' message w"

definition Logger_error :: "logger \<Rightarrow> string \<Rightarrow> world \<Rightarrow> unit result \<times> world" where
  "Logger_error self message w = Logger_log self ''ERROR'' message w"

definition Logger_warning :: "logger \<Rightarrow> string \<Rightarrow> world \<Rightarrow> unit result \<times> world" where
  "Logger_warning self message w = Logger_log self ''WARNING'' message w"

section \<open>Sequences of calls\<close>

text \<open>
  A caller that logs one (level, message) pair after the other, as \<^verbatim>\<open>demo\<close> does; an
  exception ends the sequence.
\<close>

fun log_all :: "logger \<Rightarrow> (string \<times> string) list \<Rightarrow> world \<Rightarrow> unit result \<times> world" where
  "log_all self [] w = (Return (), w)"
| "log_all self ((level, message) # rest) w =
     (case Logger_log self level message w of
        (Raise e, w1) \<Rightarrow> (Raise e, w1)
      | (Return u, w1) \<Rightarrow> log_all self rest w1)"

text \<open>
  The line that a call formats when the clock \<open>c\<close> is at its reading \<open>k\<close>, and the
  lines of a sequence of calls of which each takes \<open>d\<close> readings.
\<close>

definition line_at :: "(nat \<Rightarrow> datetime) \<Rightarrow> nat \<Rightarrow> string \<Rightarrow> string \<Rightarrow> string" where
  "line_at c k level message =
     ''['' @ strftime (c k) ''%Y-%m-%d %H:%M:%S'' @ ''] '' @ level @ '': '' @ message"

fun lines_from :: "(nat \<Rightarrow> datetime) \<Rightarrow> nat \<Rightarrow> nat \<Rightarrow> (string \<times> string) list \<Rightarrow> string list" where
  "lines_from c k d [] = []"
| "lines_from c k d ((level, message) # rest) =
     line_at c k level message # lines_from c (k + d) d rest"

text \<open>
  The entry of the JSON backend for a line and a reading of the clock, and the entries of
  a sequence of calls: each call reads the clock once for its line and once more for its
  entry.
\<close>

definition make_entry :: "datetime \<Rightarrow> string \<Rightarrow> json" where
  "make_entry t line =
     JObject [(ustr ''timestamp'', JString (ustr (isoformat t))),
              (ustr ''message'', JString (ustr line))]"

fun entries_from :: "(nat \<Rightarrow> datetime) \<Rightarrow> nat \<Rightarrow> (string \<times> string) list \<Rightarrow> json list" where
  "entries_from c k [] = []"
| "entries_from c k ((level, message) # rest) =
     make_entry (c (Suc k)) (line_at c k level message) # entries_from c (k + 2) rest"

section \<open>Reading the history\<close>

text \<open>
  What a run added to the history, the backends whose \<^verbatim>\<open>write\<close> was called in a stretch
  of history, and the file operations in it.
\<close>

definition new_events :: "world \<Rightarrow> world \<Rightarrow> event list" where
  "new_events w w' = drop (length (events w)) (events w')"

fun callees :: "event list \<Rightarrow> (backend \<times> string) list" where
  "callees [] = []"
| "callees (Called b s # es) = (b, s) # callees es"
| "callees (e # es) = callees es"

fun clock_reads :: "event list \<Rightarrow> datetime list" where
  "clock_reads [] = []"
| "clock_reads (ClockRead t # es) = t # clock_reads es"
| "clock_reads (e # es) = clock_reads es"

fun file_events :: "event list \<Rightarrow> event list" where
  "file_events [] = []"
| "file_events (Opened p m # es) = Opened p m # file_events es"
| "file_events (ReadAll p # es) = ReadAll p # file_events es"
| "file_events (Written p s # es) = Written p s # file_events es"
| "file_events (Closed p # es) = Closed p # file_events es"
| "file_events (e # es) = file_events es"

section \<open>A world to run the program in\<close>

text \<open>
  A morning in March 2024, the clock one second further at each reading, nothing printed,
  no file written and no backend made yet.
\<close>

definition sample_time :: datetime where
  "sample_time =
     \<lparr>year = 2024, month = 3, day = 9, hour = 7, minute = 5, second = 0, microsecond = 42\<rparr>"

definition sample_world :: world where
  "sample_world =
     \<lparr>clock = (\<lambda>k. sample_time\<lparr>second := k mod 60\<rparr>), ticks = 0, stdout = [],
      files = Map.empty, made = 0, events = []\<rparr>"

section \<open>The factory and the shortcuts\<close>

text \<open>
  Claim C2. For each of the names \<^verbatim>\<open>console\<close>, \<^verbatim>\<open>file\<close> and \<^verbatim>\<open>json\<close> the factory
  returns a backend of the class that goes with the name. The backend is new: its
  identity is the number of backends made so far, which no earlier backend has. The world
  afterwards is the world before with that number raised by one, so nothing was printed,
  no file was touched, the clock was not read and the history is as it was.
\<close>

theorem create_logger_recognized:
  "create_logger ''console'' w
     = (Return \<lparr>ident = made w, cls = ConsoleLogger\<rparr>, w\<lparr>made := Suc (made w)\<rparr>) \<and>
   create_logger ''file'' w
     = (Return \<lparr>ident = made w, cls = FileLogger\<rparr>, w\<lparr>made := Suc (made w)\<rparr>) \<and>
   create_logger ''json'' w
     = (Return \<lparr>ident = made w, cls = JSONLogger\<rparr>, w\<lparr>made := Suc (made w)\<rparr>)"
  by (simp add: create_logger_def construct_def)

text \<open>
  Claim C3. For any other name the factory raises \<^verbatim>\<open>ValueError\<close> with a message that
  ends in the name, and leaves the world exactly as it was: no backend was made and
  nothing was written.
\<close>

theorem create_logger_unrecognized:
  assumes "n \<noteq> ''console''" and "n \<noteq> ''file''" and "n \<noteq> ''json''"
  shows "create_logger n w = (Raise (ValueError (''Unknown logger type: '' @ n)), w)"
  using assms by (simp add: create_logger_def)

theorem create_logger_unrecognized_witness:
  "''bogus'' \<noteq> ''console'' \<and> ''bogus'' \<noteq> ''file'' \<and> ''bogus'' \<noteq> ''json'' \<and>
   create_logger ''bogus'' sample_world
     = (Raise (ValueError ''Unknown logger type: bogus''), sample_world)"
  using create_logger_unrecognized [of "''bogus''" sample_world] by simp

text \<open>
  Claim C8. \<^verbatim>\<open>info\<close>, \<^verbatim>\<open>warning\<close> and \<^verbatim>\<open>error\<close> give the result and the world that
  \<^verbatim>\<open>log\<close> gives with the level \<^verbatim>\<open>INFO\<close>, \<^verbatim>\<open>WARNING\<close> and \<^verbatim>\<open>ERROR\<close>: the same
  single write of the same text, and the same exception if the backend raises one.
\<close>

theorem shortcuts_delegate:
  "Logger_info self m w = Logger_log self ''INFO'' m w \<and>
   Logger_warning self m w = Logger_log self ''WARNING'' m w \<and>
   Logger_error self m w = Logger_log self ''ERROR'' m w"
  by (simp add: Logger_info_def Logger_warning_def Logger_error_def)

end
